theory Spec2Isabelle
  imports Main
begin

section \<open>Data model of the game pages\<close>

text \<open>
  The client reads a game instance as \<^verbatim>\<open>gameState.state.{status, player1, player2,
  remainingObjects, moves, winners}\<close>.  The seats are absent until a player joins, and the
  components guard \<^verbatim>\<open>moves\<close> and \<^verbatim>\<open>winners\<close> against being absent, so these four
  fields are optional here: \<open>None\<close> is JavaScript's \<^verbatim>\<open>undefined\<close>.
\<close>

datatype GameStatus = WAITING | IN_PROGRESS | OVER

record NimMoveEntry =
  entry_playerID :: string
  entry_numObjects :: int

record NimGameState =
  status :: GameStatus
  player1 :: "string option"
  player2 :: "string option"
  remainingObjects :: int
  moves :: "NimMoveEntry list option"
  winners :: "string list option"

record GameInstance =
  gameID :: string
  state :: NimGameState

record User =
  username :: string
  user_id :: "string option"

text \<open>The payload of the \<^verbatim>\<open>makeMove\<close> socket event:
  \<^verbatim>\<open>{gameID, move: {playerID, gameID, move: {numObjects}}}\<close>.\<close>

record NimMove =
  numObjects :: int

record GameMove =
  move_playerID :: string
  move_gameID :: string
  move_move :: NimMove

record GameMovePayload =
  payload_gameID :: string
  payload_move :: GameMove

text \<open>What a handler does to the outside world, in the order it does it.\<close>

datatype Effect =
    Emit_makeMove GameMovePayload
  | Emit_joinGame string
  | Emit_leaveGame string
  | Request_leaveGame string string
  | Navigate string
  | ConsoleError string

text \<open>JavaScript truthiness of an optional string: \<^verbatim>\<open>undefined\<close>, \<^verbatim>\<open>null\<close> and the
  empty string are falsy.\<close>

definition truthy :: "string option \<Rightarrow> bool" where
  "truthy v = (case v of None \<Rightarrow> False | Some s \<Rightarrow> s \<noteq> [])"

text \<open>\<^verbatim>\<open>v || d\<close> on an optional string.\<close>

definition orElse :: "string option \<Rightarrow> string \<Rightarrow> string" where
  "orElse v d = (case v of None \<Rightarrow> d | Some s \<Rightarrow> if s \<noteq> [] then s else d)"

section \<open>useNimGamePage: the move input\<close>

text \<open>
  \<^verbatim>\<open>parseInt(value, 10)\<close>: leading white space is skipped, one sign is read, then the
  longest run of decimal digits; no digit gives \<^verbatim>\<open>NaN\<close>, here \<open>None\<close>.  With the radix
  given as 10 no \<^verbatim>\<open>0x\<close> prefix is stripped.  Strings are byte strings, so the white space
  recognised is the ASCII one.  The result is an unbounded integer where JavaScript has
  a double; the handler only compares it with 1 and 3, and rounding to a double is
  monotone and exact on small integers.
\<close>

definition isWhiteSpace :: "char \<Rightarrow> bool" where
  "isWhiteSpace c = (c \<in> set [CHR 0x09, CHR 0x0A, CHR 0x0B, CHR 0x0C, CHR 0x0D, CHR 0x20])"

definition digitValue :: "char \<Rightarrow> int option" where
  "digitValue c =
     (let k = (of_char c :: nat)
      in if 48 \<le> k \<and> k \<le> 57 then Some (int k - 48) else None)"

definition isDigit :: "char \<Rightarrow> bool" where
  "isDigit c = (digitValue c \<noteq> None)"

definition digitsToInt :: "string \<Rightarrow> int" where
  "digitsToInt z = foldl (\<lambda>a c. 10 * a + (case digitValue c of None \<Rightarrow> 0 | Some d \<Rightarrow> d)) 0 z"

definition parseInt10 :: "string \<Rightarrow> int option" where
  "parseInt10 v =
     (let s = dropWhile isWhiteSpace v;
          sign = (case s of c # _ \<Rightarrow> if c = CHR ''-'' then - 1 else 1 | [] \<Rightarrow> (1::int));
          s2 = (case s of c # r \<Rightarrow> if c = CHR ''-'' \<or> c = CHR ''+'' then r else s | [] \<Rightarrow> s);
          z = takeWhile isDigit s2
      in if z = [] then None else Some (sign * digitsToInt z))"

text \<open>\<^verbatim>\<open>useState<number>(1)\<close>\<close>

definition initialMove :: int where
  "initialMove = 1"

text \<open>
  \<^verbatim>\<open>handleInputChange\<close> takes the input's text and the current \<^verbatim>\<open>move\<close> state and returns
  the next one: \<^verbatim>\<open>setMove\<close> is called only under the guard.
\<close>

definition handleInputChange :: "string \<Rightarrow> int \<Rightarrow> int" where
  "handleInputChange v mv =
     (case parseInt10 v of
        None \<Rightarrow> mv
      | Some numValue \<Rightarrow> if numValue \<ge> 1 \<and> numValue \<le> 3 then numValue else mv)"

definition handleMakeMove :: "GameInstance \<Rightarrow> User \<Rightarrow> int \<Rightarrow> Effect" where
  "handleMakeMove gameState user mv =
     Emit_makeMove
       \<lparr> payload_gameID = gameID gameState,
         payload_move =
           \<lparr> move_playerID = username user,
             move_gameID = gameID gameState,
             move_move = \<lparr> numObjects = mv \<rparr> \<rparr> \<rparr>"

text \<open>The events of the page: typing into the input, and a click on the submit button.
  \<open>runNimPage\<close> collects what the page emits, starting from a given \<^verbatim>\<open>move\<close> state.\<close>

datatype NimPageEvent = InputChange string | SubmitClick

fun runNimPage :: "GameInstance \<Rightarrow> User \<Rightarrow> int \<Rightarrow> NimPageEvent list \<Rightarrow> Effect list" where
  "runNimPage g u mv [] = []"
| "runNimPage g u mv (InputChange v # es) = runNimPage g u (handleInputChange v mv) es"
| "runNimPage g u mv (SubmitClick # es) = handleMakeMove g u mv # runNimPage g u mv es"

text \<open>The \<^verbatim>\<open>numObjects\<close> a \<^verbatim>\<open>makeMove\<close> event carries.\<close>

fun emittedNumObjects :: "Effect \<Rightarrow> int option" where
  "emittedNumObjects (Emit_makeMove p) = Some (numObjects (move_move (payload_move p)))"
| "emittedNumObjects _ = None"

section \<open>NimGamePage: what is rendered\<close>

definition getCurrentPlayer :: "GameInstance \<Rightarrow> string option" where
  "getCurrentPlayer gameState =
     (case moves (state gameState) of
        None \<Rightarrow> player1 (state gameState)
      | Some ms \<Rightarrow>
          if length ms > 0 then
            (let isEvenMove = (length ms mod 2 = 0)
             in if isEvenMove then player1 (state gameState) else player2 (state gameState))
          else player1 (state gameState))"

definition isUserTurn :: "GameInstance \<Rightarrow> User \<Rightarrow> bool" where
  "isUserTurn gameState user = (getCurrentPlayer gameState = Some (username user))"

record MoveControls =
  input_value :: int
  submit_disabled :: bool

text \<open>The parts of the page that depend on the game: \<open>winner_shown\<close> is the text after
  \<^verbatim>\<open>Winner:\<close>, present only when that paragraph is rendered, and \<open>move_controls\<close> the input
  and the submit button, present only when that block is rendered.\<close>

record NimGamePageView =
  player1_shown :: string
  player2_shown :: string
  currentPlayer_shown :: string
  remainingObjects_shown :: int
  winner_shown :: "string option"
  move_controls :: "MoveControls option"

definition NimGamePage :: "GameInstance \<Rightarrow> User \<Rightarrow> int \<Rightarrow> NimGamePageView" where
  "NimGamePage gameState user mv =
     \<lparr> player1_shown = orElse (player1 (state gameState)) ''Waiting...'',
       player2_shown = orElse (player2 (state gameState)) ''Waiting...'',
       currentPlayer_shown = orElse (getCurrentPlayer gameState) ''Waiting for players...'',
       remainingObjects_shown = remainingObjects (state gameState),
       winner_shown =
         (if status (state gameState) = OVER then
            Some (case winners (state gameState) of
                    None \<Rightarrow> ''No winner''
                  | Some ws \<Rightarrow> if length ws > 0 then hd ws else ''No winner'')
          else None),
       move_controls =
         (if status (state gameState) = IN_PROGRESS then
            Some \<lparr> input_value = mv, submit_disabled = (\<not> isUserTurn gameState user) \<rparr>
          else None) \<rparr>"

section \<open>useGamePage: joining, leaving and the socket handlers\<close>

record GamePageState =
  gameState :: "GameInstance option"
  joinedGameID :: "string option"
  error :: "string option"

definition initialGamePageState :: GamePageState where
  "initialGamePageState = \<lparr> gameState = None, joinedGameID = None, error = None \<rparr>"

text \<open>\<^verbatim>\<open>GameUpdatePayload\<close> is \<^verbatim>\<open>{gameState}\<close> and \<^verbatim>\<open>GameErrorPayload\<close> is
  \<^verbatim>\<open>{player, error}\<close>.\<close>

record GameUpdatePayload =
  update_gameState :: GameInstance

record GameErrorPayload =
  error_player :: string
  error_error :: string

text \<open>
  \<^verbatim>\<open>handleLeaveGame\<close> changes no state of the hook; it is modelled by the effects it
  performs.  \<open>leaveOk\<close> says whether the awaited \<^verbatim>\<open>leaveGame\<close> request resolves: when it
  rejects, the \<^verbatim>\<open>catch\<close> logs and the socket event is skipped.  The navigation follows
  the \<^verbatim>\<open>if\<close> in every case.
\<close>

definition handleLeaveGame :: "User \<Rightarrow> bool \<Rightarrow> GamePageState \<Rightarrow> Effect list" where
  "handleLeaveGame user leaveOk c =
     (case (joinedGameID c, gameState c) of
        (Some jid, Some g) \<Rightarrow>
          if jid \<noteq> [] \<and> status (state g) \<noteq> OVER then
            Request_leaveGame jid (username user) #
              (if leaveOk then [Emit_leaveGame jid] else [ConsoleError ''Error leaving game:''])
          else []
      | _ \<Rightarrow> [])
     @ [Navigate ''/games'']"

text \<open>\<open>joinResult\<close> is the game the awaited \<^verbatim>\<open>joinGame\<close> request resolves to, \<open>None\<close>
  when it rejects.\<close>

definition handleJoinGame ::
  "string \<Rightarrow> GameInstance option \<Rightarrow> GamePageState \<Rightarrow> GamePageState \<times> Effect list" where
  "handleJoinGame gid joinResult c =
     (case joinResult of
        Some game \<Rightarrow>
          (c\<lparr> gameState := Some game, joinedGameID := Some gid, error := None \<rparr>,
           [Emit_joinGame gid])
      | None \<Rightarrow>
          (c\<lparr> error := Some ''Failed to join game'' \<rparr>, [ConsoleError ''Error joining game:'']))"

text \<open>The body of the effect: \<^verbatim>\<open>if (gameID) handleJoinGame(gameID)\<close>, with the route
  parameter \<^verbatim>\<open>gameID\<close> possibly absent.\<close>

definition routeEffect ::
  "string option \<Rightarrow> GameInstance option \<Rightarrow> GamePageState \<Rightarrow> GamePageState \<times> Effect list" where
  "routeEffect routeGameID joinResult c =
     (case routeGameID of
        None \<Rightarrow> (c, [])
      | Some gid \<Rightarrow> if gid \<noteq> [] then handleJoinGame gid joinResult c else (c, []))"

definition handleGameUpdate :: "GameUpdatePayload \<Rightarrow> GamePageState \<Rightarrow> GamePageState" where
  "handleGameUpdate updatedState c =
     c\<lparr> gameState := Some (update_gameState updatedState), error := None \<rparr>"

definition handleGameError :: "User \<Rightarrow> GameErrorPayload \<Rightarrow> GamePageState \<Rightarrow> GamePageState" where
  "handleGameError user gameError c =
     (if error_player gameError = username user
      then c\<lparr> error := Some (error_error gameError) \<rparr>
      else c)"

text \<open>Everything that changes the hook's state: a run of the effect, or one of the two
  socket events.\<close>

datatype GamePageEvent =
    RouteEffect "string option" "GameInstance option"
  | GameUpdateEvent GameUpdatePayload
  | GameErrorEvent GameErrorPayload

fun gamePageStep :: "User \<Rightarrow> GamePageState \<Rightarrow> GamePageEvent \<Rightarrow> GamePageState" where
  "gamePageStep user c (RouteEffect routeGameID joinResult) = fst (routeEffect routeGameID joinResult c)"
| "gamePageStep user c (GameUpdateEvent u) = handleGameUpdate u c"
| "gamePageStep user c (GameErrorEvent e) = handleGameError user e c"

definition gamePageRun :: "User \<Rightarrow> GamePageEvent list \<Rightarrow> GamePageState" where
  "gamePageRun user evs = foldl (gamePageStep user) initialGamePageState evs"

text \<open>What the hook returns to the page besides the leave handler.\<close>

definition observed :: "GamePageState \<Rightarrow> GameInstance option \<times> string option" where
  "observed c = (gameState c, error c)"

section \<open>useDirectMessage: chat updates\<close>

record Message =
  msg :: string
  msgFrom :: string
  msgDateTime :: int

record Chat =
  chat_id :: "string option"
  participants :: "string list"
  messages :: "Message list"

record ChatUpdatePayload =
  update_chat :: Chat
  update_type :: string

record DirectMessageState =
  selectedChat :: "Chat option"
  chats :: "Chat list"

text \<open>The two functions handed to \<^verbatim>\<open>setChats\<close>.  \<^verbatim>\<open>_id\<close> is optional, and \<^verbatim>\<open>===\<close> on two
  absent ids is true, as equality on \<open>None\<close> is.\<close>

definition createdUpdater :: "Chat \<Rightarrow> Chat list \<Rightarrow> Chat list" where
  "createdUpdater chat prevChats =
     (let chatExists = list_ex (\<lambda>existingChat. chat_id existingChat = chat_id chat) prevChats
      in if \<not> chatExists then prevChats @ [chat] else prevChats)"

definition newMessageUpdater :: "Chat \<Rightarrow> Chat list \<Rightarrow> Chat list" where
  "newMessageUpdater chat prevChats =
     map (\<lambda>existingChat. if chat_id existingChat = chat_id chat then chat else existingChat) prevChats"

text \<open>An update of any other type throws; the message is the left summand.\<close>

definition handleChatUpdate ::
  "ChatUpdatePayload \<Rightarrow> DirectMessageState \<Rightarrow> string + DirectMessageState" where
  "handleChatUpdate chatUpdate st =
     (let chat = update_chat chatUpdate; type = update_type chatUpdate
      in if type = ''created'' then
           Inr (st\<lparr> chats := createdUpdater chat (chats st) \<rparr>)
         else if type = ''newMessage'' then
           (let st1 = (case selectedChat st of
                         None \<Rightarrow> st
                       | Some sel \<Rightarrow>
                           if chat_id sel = chat_id chat then st\<lparr> selectedChat := Some chat \<rparr> else st)
            in Inr (st1\<lparr> chats := newMessageUpdater chat (chats st1) \<rparr>))
         else Inl (''Invalid chatUpdate type: '' @ type))"

section \<open>Chat service: getChatsByParticipants\<close>

text \<open>
  The values the query and the test double can hand to the service, as far as the
  service tells them apart: an array, an \<^verbatim>\<open>Error\<close> object, another object, and the two
  falsy values \<^verbatim>\<open>undefined\<close> and \<^verbatim>\<open>null\<close>.  A promise either resolves to a value or
  rejects.
\<close>

datatype JsValue =
    JsUndefined
  | JsNull
  | JsError string
  | JsObject Chat
  | JsArray "Chat list"

datatype QueryOutcome = QueryThrows string | QueryReturns JsValue

datatype Promise = Resolves JsValue | Rejects string

fun isArray :: "JsValue \<Rightarrow> bool" where
  "isArray (JsArray _) = True"
| "isArray _ = False"

fun isError :: "JsValue \<Rightarrow> bool" where
  "isError (JsError _) = True"
| "isError _ = False"

fun truthyValue :: "JsValue \<Rightarrow> bool" where
  "truthyValue JsUndefined = False"
| "truthyValue JsNull = False"
| "truthyValue _ = True"

text \<open>
  The service as in \<^verbatim>\<open>server/models/schema/user.schema.ts\<close>.  \<open>query\<close> stands for the awaited
  \<^verbatim>\<open>ChatModel.find({participants: {$all: p}}).populate(...).lean()\<close>.
\<close>

definition getChatsByParticipants :: "(string list \<Rightarrow> QueryOutcome) \<Rightarrow> string list \<Rightarrow> Promise" where
  "getChatsByParticipants query p =
     (case query p of
        QueryThrows _ \<Rightarrow> Resolves (JsArray [])
      | QueryReturns chatsFound \<Rightarrow>
          Resolves (if isArray chatsFound then chatsFound else JsArray []))"

text \<open>
  The service as in \<^verbatim>\<open>unnamed/part_002\<close>, which first looks for a test double:
  \<open>mockFind\<close> is \<^verbatim>\<open>mockingoose?.__mocks?.[ChatModel.modelName]?.find\<close>, \<^verbatim>\<open>undefined\<close> when
  the mocking library is not installed or holds no double for \<^verbatim>\<open>find\<close>.  The query runs
  only when \<open>mockFind\<close> is falsy.  A truthy double that is neither an \<^verbatim>\<open>Error\<close> nor an
  array is wrapped, \<^verbatim>\<open>[mockFind as Chat]\<close>; the last case of the inner \<open>case\<close> is never
  reached under the two guards.
\<close>

definition getChatsByParticipants_mockable ::
  "JsValue \<Rightarrow> (string list \<Rightarrow> QueryOutcome) \<Rightarrow> string list \<Rightarrow> Promise" where
  "getChatsByParticipants_mockable mockFind query p =
     (if truthyValue mockFind then
        (if isError mockFind then Resolves (JsArray [])
         else Resolves (case mockFind of
                          JsArray cs \<Rightarrow> JsArray cs
                        | JsObject c \<Rightarrow> JsArray [c]
                        | _ \<Rightarrow> JsArray []))
      else
        (case query p of
           QueryThrows _ \<Rightarrow> Resolves (JsArray [])
         | QueryReturns chatsFound \<Rightarrow>
             Resolves (if isArray chatsFound then chatsFound else JsArray [])))"

section \<open>The game session engine\<close>

text \<open>
  The engine runs on the server and is not among the sources; the definitions of this
  section follow the specification's sections 4.2 to 4.4 for one subtraction-game
  instance.  The registry that finds an instance by its identifier is left out: every
  function below already holds the instance.
\<close>

datatype Rejection = NotYourTurn | GameNotInProgress | IllegalMove

datatype JoinError = GameFull

datatype Outbound =
    PublishStateUpdate NimGameState
  | PublishPlayerError string Rejection

text \<open>Modelled from the spec: the ordered sequence \<^verbatim>\<open>moves\<close> of the instance's state; an
  absent sequence holds no move.\<close>

definition movesOf :: "NimGameState \<Rightarrow> NimMoveEntry list" where
  "movesOf s = (case moves s of None \<Rightarrow> [] | Some ms \<Rightarrow> ms)"

text \<open>Modelled from the spec: the seat order, \<^verbatim>\<open>player1\<close> then \<^verbatim>\<open>player2\<close>, each seat
  holding a username or nothing.\<close>

definition seats :: "NimGameState \<Rightarrow> string option list" where
  "seats s = [player1 s, player2 s]"

text \<open>Modelled from the spec: the computed turn, \<^verbatim>\<open>moves.length % numSeats\<close>, indexes
  into the seat order.\<close>

definition turnSeat :: "NimGameState \<Rightarrow> string option" where
  "turnSeat s = seats s ! (length (movesOf s) mod length (seats s))"

text \<open>Modelled from the spec: the seated player other than \<open>playerID\<close>, as the list
  \<^verbatim>\<open>winners\<close> is set to (empty when that seat holds nobody).\<close>

definition otherSeated :: "NimGameState \<Rightarrow> string \<Rightarrow> string list" where
  "otherSeated s playerID =
     (case (if player1 s = Some playerID then player2 s else player1 s) of
        None \<Rightarrow> []
      | Some w \<Rightarrow> [w])"

text \<open>
  Modelled from the spec: the subtraction game's move validator of section 4.3,
  \<^verbatim>\<open>validate(state, playerID, move)\<close>, which returns the new state or a rejection.  The
  checks are made in the order of the state machine of section 4.4: moves are permitted
  in \<^verbatim>\<open>IN_PROGRESS\<close> only, and there they are turn-gated; then the payload must be one of
  1, 2, 3 and at most \<^verbatim>\<open>remainingObjects\<close>.  On success the move is appended and the
  pile decremented; a pile of 0 after the decrement ends the game, the other seated
  player winning.
\<close>

definition validate :: "NimGameState \<Rightarrow> string \<Rightarrow> int \<Rightarrow> Rejection + NimGameState" where
  "validate s playerID n =
     (if status s \<noteq> IN_PROGRESS then Inl GameNotInProgress
      else if turnSeat s \<noteq> Some playerID then Inl NotYourTurn
      else if n \<notin> {1, 2, 3} \<or> n > remainingObjects s then Inl IllegalMove
      else
        (let s1 = s\<lparr> moves := Some (movesOf s @ [\<lparr> entry_playerID = playerID, entry_numObjects = n \<rparr>]),
                     remainingObjects := remainingObjects s - n \<rparr>
         in if remainingObjects s1 = 0
            then Inr (s1\<lparr> status := OVER, winners := Some (otherSeated s playerID) \<rparr>)
            else Inr s1))"

text \<open>
  Modelled from the spec: \<^verbatim>\<open>applyMove\<close> of section 4.4 on the instance it found.  A
  success is committed and the full snapshot published; a rejection leaves the instance
  as it was and publishes an error scoped to the acting player.
\<close>

definition applyMove :: "NimGameState \<Rightarrow> string \<Rightarrow> int \<Rightarrow> NimGameState \<times> Outbound" where
  "applyMove s playerID n =
     (case validate s playerID n of
        Inl r \<Rightarrow> (s, PublishPlayerError playerID r)
      | Inr s' \<Rightarrow> (s', PublishStateUpdate s'))"

text \<open>
  Modelled from the spec: \<^verbatim>\<open>join\<close> of section 4.2.  A player already seated gets the
  instance back unchanged.  A seat is assigned while the instance is \<^verbatim>\<open>WAITING\<close> and the
  seat vacant, and filling the second seat starts the game.  Every other join is
  refused with \<^verbatim>\<open>GameFull\<close>, the one join error the specification names.
\<close>

definition join :: "NimGameState \<Rightarrow> string \<Rightarrow> JoinError + NimGameState" where
  "join s playerID =
     (if player1 s = Some playerID \<or> player2 s = Some playerID then Inr s
      else if status s = WAITING \<and> player1 s = None then
        Inr (s\<lparr> player1 := Some playerID,
                status := (if player2 s \<noteq> None then IN_PROGRESS else WAITING) \<rparr>)
      else if status s = WAITING \<and> player2 s = None then
        Inr (s\<lparr> player2 := Some playerID, status := IN_PROGRESS \<rparr>)
      else Inl GameFull)"

text \<open>
  Modelled from the spec: \<^verbatim>\<open>leave\<close> of section 4.2.  While \<^verbatim>\<open>WAITING\<close> the seat is
  vacated; while \<^verbatim>\<open>IN_PROGRESS\<close> the game ends, the other seated player wins and the
  seats stay; when \<^verbatim>\<open>OVER\<close> nothing happens.  The specification speaks of seated
  players only; a player who holds no seat leaves nothing.
\<close>

definition leave :: "NimGameState \<Rightarrow> string \<Rightarrow> NimGameState" where
  "leave s playerID =
     (if player1 s \<noteq> Some playerID \<and> player2 s \<noteq> Some playerID then s
      else case status s of
             WAITING \<Rightarrow>
               s\<lparr> player1 := (if player1 s = Some playerID then None else player1 s),
                  player2 := (if player2 s = Some playerID then None else player2 s) \<rparr>
           | IN_PROGRESS \<Rightarrow> s\<lparr> status := OVER, winners := Some (otherSeated s playerID) \<rparr>
           | OVER \<Rightarrow> s)"

text \<open>
  Modelled from the spec: \<^verbatim>\<open>createGame\<close> of section 4.1 for the subtraction game, given
  the starting pile: a new instance is \<^verbatim>\<open>WAITING\<close>, its seats are empty, no move is
  made and nobody has won.
\<close>

definition createGame :: "int \<Rightarrow> NimGameState" where
  "createGame pile =
     \<lparr> status = WAITING, player1 = None, player2 = None, remainingObjects = pile,
       moves = Some [], winners = Some [] \<rparr>"

text \<open>Modelled from the spec: the three requests that act on an instance, and a run of
  them from creation.  A refused join leaves the instance as it was.\<close>

datatype EngineRequest = JoinRequest string | LeaveRequest string | MoveRequest string int

fun engineStep :: "NimGameState \<Rightarrow> EngineRequest \<Rightarrow> NimGameState" where
  "engineStep s (JoinRequest playerID) = (case join s playerID of Inl _ \<Rightarrow> s | Inr s' \<Rightarrow> s')"
| "engineStep s (LeaveRequest playerID) = leave s playerID"
| "engineStep s (MoveRequest playerID n) = fst (applyMove s playerID n)"

definition engineRun :: "int \<Rightarrow> EngineRequest list \<Rightarrow> NimGameState" where
  "engineRun pile reqs = foldl engineStep (createGame pile) reqs"

text \<open>Modelled from the spec: a run of \<^verbatim>\<open>applyMove\<close> calls on one instance, each given
  as the acting player and the number of objects.\<close>

fun applyMoves :: "NimGameState \<Rightarrow> (string \<times> int) list \<Rightarrow> NimGameState" where
  "applyMoves s [] = s"
| "applyMoves s ((playerID, n) # rest) = applyMoves (fst (applyMove s playerID n)) rest"

section \<open>Invariants of the engine\<close>

text \<open>Relative to the instance \<open>s0\<close> a run started from: the seats are those of \<open>s0\<close>,
  and the move at every index \<open>k\<close> was made by the player of seat \<open>k mod 2\<close>.\<close>

definition turnsKept :: "NimGameState \<Rightarrow> NimGameState \<Rightarrow> bool" where
  "turnsKept s0 s =
     (seats s = seats s0 \<and>
      (\<forall>k < length (movesOf s). Some (entry_playerID (movesOf s ! k)) = seats s0 ! (k mod 2)))"

text \<open>The seats of an instance: never the same player twice, and both taken once the
  instance is no longer waiting.\<close>

definition seated :: "NimGameState \<Rightarrow> bool" where
  "seated s =
     ((status s \<noteq> WAITING \<longrightarrow> player1 s \<noteq> None \<and> player2 s \<noteq> None) \<and>
      (player1 s = None \<or> player1 s \<noteq> player2 s))"

section \<open>Sample instances\<close>

text \<open>Concrete users, games, chats and queries on which the theorems below are run:
  a game of two players with a pile of 7 and no move made, the same game two moves
  later with a pile of 3, a game still waiting for its second player, and a game that
  is over.\<close>

definition user0 :: User where
  "user0 = \<lparr> username = ''ann'', user_id = Some ''u1'' \<rparr>"

definition user1 :: User where
  "user1 = \<lparr> username = ''bob'', user_id = Some ''u2'' \<rparr>"

definition nim0 :: NimGameState where
  "nim0 = \<lparr> status = IN_PROGRESS, player1 = Some ''ann'', player2 = Some ''bob'',
            remainingObjects = 7, moves = Some [], winners = Some [] \<rparr>"

definition nim3 :: NimGameState where
  "nim3 = \<lparr> status = IN_PROGRESS, player1 = Some ''ann'', player2 = Some ''bob'',
            remainingObjects = 3,
            moves = Some [\<lparr> entry_playerID = ''ann'', entry_numObjects = 3 \<rparr>,
                          \<lparr> entry_playerID = ''bob'', entry_numObjects = 1 \<rparr>],
            winners = Some [] \<rparr>"

definition nimWaiting :: NimGameState where
  "nimWaiting = \<lparr> status = WAITING, player1 = Some ''ann'', player2 = None,
                  remainingObjects = 7, moves = Some [], winners = Some [] \<rparr>"

definition nimOver :: NimGameState where
  "nimOver = \<lparr> status = OVER, player1 = Some ''ann'', player2 = Some ''bob'',
               remainingObjects = 0,
               moves = Some [\<lparr> entry_playerID = ''ann'', entry_numObjects = 3 \<rparr>,
                             \<lparr> entry_playerID = ''bob'', entry_numObjects = 1 \<rparr>,
                             \<lparr> entry_playerID = ''ann'', entry_numObjects = 3 \<rparr>],
               winners = Some [''bob''] \<rparr>"

definition game0 :: GameInstance where
  "game0 = \<lparr> gameID = ''g1'', state = nim0 \<rparr>"

definition gameWaiting :: GameInstance where
  "gameWaiting = \<lparr> gameID = ''g1'', state = nimWaiting \<rparr>"

definition gameOver :: GameInstance where
  "gameOver = \<lparr> gameID = ''g1'', state = nimOver \<rparr>"

definition chatA :: Chat where
  "chatA = \<lparr> chat_id = Some ''c1'', participants = [''ann'', ''bob''], messages = [] \<rparr>"

definition chatB :: Chat where
  "chatB = \<lparr> chat_id = Some ''c2'', participants = [''ann'', ''cat''], messages = [] \<rparr>"

definition failingQuery :: "string list \<Rightarrow> QueryOutcome" where
  "failingQuery p = QueryThrows ''connection lost''"

definition nullQuery :: "string list \<Rightarrow> QueryOutcome" where
  "nullQuery p = QueryReturns JsNull"

section \<open>The move input\<close>

lemmas parse_defs = parseInt10_def isWhiteSpace_def isDigit_def digitValue_def digitsToInt_def

lemma handleInputChange_range:
  "mv \<in> {1, 2, 3} \<Longrightarrow> handleInputChange v mv \<in> {1, 2, 3}"
  by (auto simp: handleInputChange_def split: option.splits)

lemma runNimPage_range:
  "mv \<in> {1, 2, 3} \<Longrightarrow> e \<in> set (runNimPage g u mv evs) \<Longrightarrow>
   \<exists>n. emittedNumObjects e = Some n \<and> n \<in> {1, 2, 3}"
proof (induction g u mv evs rule: runNimPage.induct)
  case (1 g u mv)
  then show ?case by simp
next
  case (2 g u mv v es)
  from "2.prems"(1) have "handleInputChange v mv \<in> {1, 2, 3}"
    by (rule handleInputChange_range)
  with 2 show ?case by simp
next
  case (3 g u mv es)
  then show ?case by (auto simp: handleMakeMove_def)
qed

text \<open>
  C3.  The \<^verbatim>\<open>move\<close> state starts at 1; \<^verbatim>\<open>handleInputChange\<close> either leaves it as it is
  or sets it to what \<^verbatim>\<open>parseInt\<close> read, and then that is 1, 2 or 3; so after any sequence
  of input changes and clicks, every \<^verbatim>\<open>makeMove\<close> payload the page has emitted carries a
  \<^verbatim>\<open>numObjects\<close> of 1, 2 or 3.
\<close>

theorem nim_page_moves_in_range:
  "initialMove = 1 \<and>
   (handleInputChange v mv = mv \<or>
    (parseInt10 v = Some (handleInputChange v mv) \<and> handleInputChange v mv \<in> {1, 2, 3})) \<and>
   (\<forall>e \<in> set (runNimPage g u initialMove evs).
      \<exists>n. emittedNumObjects e = Some n \<and> n \<in> {1, 2, 3})"
proof (intro conjI ballI)
  show "initialMove = 1" by (simp add: initialMove_def)
  show "handleInputChange v mv = mv \<or>
    (parseInt10 v = Some (handleInputChange v mv) \<and> handleInputChange v mv \<in> {1, 2, 3})"
    by (auto simp: handleInputChange_def split: option.splits)
next
  fix e assume "e \<in> set (runNimPage g u initialMove evs)"
  moreover have "initialMove \<in> {1, 2, 3}" by (simp add: initialMove_def)
  ultimately show "\<exists>n. emittedNumObjects e = Some n \<and> n \<in> {1, 2, 3}"
    by (rule runNimPage_range[rotated])
qed

text \<open>On a run that types 7 (refused), clicks, types 2, clicks, types a letter and
  clicks, the three payloads carry 1, 2 and 2.\<close>

theorem nim_page_moves_in_range_witness:
  "map emittedNumObjects
     (runNimPage game0 user0 initialMove
        [InputChange ''7'', SubmitClick, InputChange ''2'', SubmitClick, InputChange ''x'', SubmitClick])
   = [Some 1, Some 2, Some 2] \<and>
   (\<exists>n. emittedNumObjects
      (last (runNimPage game0 user0 initialMove
        [InputChange ''7'', SubmitClick, InputChange ''2'', SubmitClick, InputChange ''x'', SubmitClick]))
      = Some n \<and> n \<in> {1, 2, 3})"
proof -
  let ?evs = "[InputChange ''7'', SubmitClick, InputChange ''2'', SubmitClick, InputChange ''x'', SubmitClick]"
  have run: "map emittedNumObjects (runNimPage game0 user0 initialMove ?evs) = [Some 1, Some 2, Some 2]"
    by (simp add: initialMove_def handleInputChange_def handleMakeMove_def parse_defs)
  have ne: "runNimPage game0 user0 initialMove ?evs \<noteq> []"
    by simp
  have "last (runNimPage game0 user0 initialMove ?evs) \<in> set (runNimPage game0 user0 initialMove ?evs)"
    using ne by (rule last_in_set)
  with nim_page_moves_in_range[of "''x''" 2 game0 user0 ?evs] run show ?thesis
    by blast
qed

section \<open>Chat updates\<close>

lemma createdUpdater_present:
  "\<exists>e \<in> set xs. chat_id e = chat_id c \<Longrightarrow> createdUpdater c xs = xs"
  by (simp add: createdUpdater_def list_ex_iff)

lemma createdUpdater_absent:
  "\<not> (\<exists>e \<in> set xs. chat_id e = chat_id c) \<Longrightarrow> createdUpdater c xs = xs @ [c]"
  by (simp add: createdUpdater_def list_ex_iff)

lemma createdUpdater_has:
  "\<exists>e \<in> set (createdUpdater c xs). chat_id e = chat_id c"
  by (cases "\<exists>e \<in> set xs. chat_id e = chat_id c")
     (auto simp: createdUpdater_present createdUpdater_absent)

lemma createdUpdater_idem:
  "createdUpdater c (createdUpdater c xs) = createdUpdater c xs"
  using createdUpdater_has by (rule createdUpdater_present)

text \<open>
  C9.  A \<^verbatim>\<open>created\<close> chat update never throws and touches the chat list only: a list
  that already holds a chat with the update's \<^verbatim>\<open>_id\<close> stays as it is, otherwise the
  chat is appended at the end and is then the only entry with that \<^verbatim>\<open>_id\<close>.  Handling
  the same update again changes nothing, so two deliveries leave the state one
  delivery leaves.
\<close>

theorem created_update_idempotent:
  "\<exists>st1. handleChatUpdate \<lparr> update_chat = c, update_type = ''created'' \<rparr> st = Inr st1 \<and>
     handleChatUpdate \<lparr> update_chat = c, update_type = ''created'' \<rparr> st1 = Inr st1 \<and>
     selectedChat st1 = selectedChat st \<and>
     ((\<exists>e \<in> set (chats st). chat_id e = chat_id c) \<longrightarrow> chats st1 = chats st) \<and>
     (\<not> (\<exists>e \<in> set (chats st). chat_id e = chat_id c) \<longrightarrow>
        chats st1 = chats st @ [c] \<and>
        filter (\<lambda>e. chat_id e = chat_id c) (chats st1) = [c])"
proof -
  let ?upd = "\<lparr> update_chat = c, update_type = ''created'' \<rparr>"
  let ?st1 = "st\<lparr> chats := createdUpdater c (chats st) \<rparr>"
  have 1: "handleChatUpdate ?upd st = Inr ?st1"
    by (simp add: handleChatUpdate_def)
  have 2: "handleChatUpdate ?upd ?st1 = Inr ?st1"
    by (simp add: handleChatUpdate_def createdUpdater_idem)
  have 3: "(\<exists>e \<in> set (chats st). chat_id e = chat_id c) \<longrightarrow> chats ?st1 = chats st"
    by (simp add: createdUpdater_present)
  have 4: "\<not> (\<exists>e \<in> set (chats st). chat_id e = chat_id c) \<longrightarrow>
              chats ?st1 = chats st @ [c] \<and>
              filter (\<lambda>e. chat_id e = chat_id c) (chats ?st1) = [c]"
  proof
    assume a: "\<not> (\<exists>e \<in> set (chats st). chat_id e = chat_id c)"
    then have "filter (\<lambda>e. chat_id e = chat_id c) (chats st) = []"
      by (simp add: filter_empty_conv)
    with a show "chats ?st1 = chats st @ [c] \<and>
              filter (\<lambda>e. chat_id e = chat_id c) (chats ?st1) = [c]"
      by (simp add: createdUpdater_absent)
  qed
  from 1 2 3 4 show ?thesis by (intro exI[of _ ?st1]) simp
qed

text \<open>A list holding one chat receives the creation of another twice: the second chat
  is appended by the first delivery and the second delivery changes nothing.\<close>

theorem created_update_idempotent_witness:
  "handleChatUpdate \<lparr> update_chat = chatB, update_type = ''created'' \<rparr>
     \<lparr> selectedChat = None, chats = [chatA] \<rparr>
   = Inr \<lparr> selectedChat = None, chats = [chatA, chatB] \<rparr> \<and>
   handleChatUpdate \<lparr> update_chat = chatB, update_type = ''created'' \<rparr>
     \<lparr> selectedChat = None, chats = [chatA, chatB] \<rparr>
   = Inr \<lparr> selectedChat = None, chats = [chatA, chatB] \<rparr>"
proof -
  have absent: "\<not> (\<exists>e \<in> set (chats \<lparr> selectedChat = None, chats = [chatA] \<rparr>). chat_id e = chat_id chatB)"
    by (simp add: chatA_def chatB_def)
  from created_update_idempotent[of chatB "\<lparr> selectedChat = None, chats = [chatA] \<rparr>"]
  obtain st1 where
    s: "handleChatUpdate \<lparr> update_chat = chatB, update_type = ''created'' \<rparr>
          \<lparr> selectedChat = None, chats = [chatA] \<rparr> = Inr st1"
    and i: "handleChatUpdate \<lparr> update_chat = chatB, update_type = ''created'' \<rparr> st1 = Inr st1"
    and sel: "selectedChat st1 = None"
    and ch: "chats st1 = [chatA, chatB]"
    using absent by auto
  from sel ch have "st1 = \<lparr> selectedChat = None, chats = [chatA, chatB] \<rparr>"
    by (cases st1) simp
  with s i show ?thesis by simp
qed

section \<open>The socket handlers of the game page\<close>

text \<open>
  C8.  A \<^verbatim>\<open>gameUpdate\<close> payload carries a whole game instance, and \<^verbatim>\<open>handleGameUpdate\<close>
  puts it in place of the game state and clears the error whatever the state was
  before: two clients that receive the same payload then show the same game and the
  same (absent) error.  The handler leaves \<^verbatim>\<open>joinedGameID\<close>, which the hook does not
  return, as it was.
\<close>

theorem game_update_converges:
  "observed (handleGameUpdate u c1) = observed (handleGameUpdate u c2) \<and>
   gameState (handleGameUpdate u c) = Some (update_gameState u) \<and>
   error (handleGameUpdate u c) = None \<and>
   joinedGameID (handleGameUpdate u c) = joinedGameID c"
  by (simp add: handleGameUpdate_def observed_def)

text \<open>
  C5.  \<^verbatim>\<open>handleGameError\<close> shows the error of a \<^verbatim>\<open>gameError\<close> payload exactly to the user
  the payload names: when \<^verbatim>\<open>gameError.player\<close> is the user's username the error becomes
  \<^verbatim>\<open>gameError.error\<close> and nothing else changes, and for every other user the whole
  state of the hook, the error included, stays as it was.
\<close>

theorem game_error_only_for_acting_player:
  "(error_player ge = username user \<longrightarrow>
      handleGameError user ge c = c\<lparr> error := Some (error_error ge) \<rparr>) \<and>
   (error_player ge \<noteq> username user \<longrightarrow> handleGameError user ge c = c)"
  by (simp add: handleGameError_def)

text \<open>The same payload, naming the first user, reaches the first and the second user,
  both without an error shown: only the first one's error is set.\<close>

theorem game_error_only_for_acting_player_witness:
  "handleGameError user0 \<lparr> error_player = ''ann'', error_error = ''Invalid move'' \<rparr> initialGamePageState
     = initialGamePageState\<lparr> error := Some ''Invalid move'' \<rparr> \<and>
   handleGameError user1 \<lparr> error_player = ''ann'', error_error = ''Invalid move'' \<rparr> initialGamePageState
     = initialGamePageState"
proof -
  have a: "error_player \<lparr> error_player = ''ann'', error_error = ''Invalid move'' \<rparr> = username user0"
    by (simp add: user0_def)
  have b: "error_player \<lparr> error_player = ''ann'', error_error = ''Invalid move'' \<rparr> \<noteq> username user1"
    by (simp add: user1_def)
  from a b
    game_error_only_for_acting_player[of "\<lparr> error_player = ''ann'', error_error = ''Invalid move'' \<rparr>" user0 initialGamePageState]
    game_error_only_for_acting_player[of "\<lparr> error_player = ''ann'', error_error = ''Invalid move'' \<rparr>" user1 initialGamePageState]
  show ?thesis by simp
qed

section \<open>Leaving a game\<close>

text \<open>The hook stores a joined game's identifier only through \<^verbatim>\<open>handleJoinGame\<close>, which
  the effect calls only with a truthy route parameter: the stored identifier is never
  the empty string.\<close>

lemma handleJoinGame_joined:
  "gid \<noteq> [] \<Longrightarrow> joinedGameID c \<noteq> Some [] \<Longrightarrow>
   joinedGameID (fst (handleJoinGame gid r c)) \<noteq> Some []"
  by (simp add: handleJoinGame_def split: option.splits)

lemma gamePageStep_joined:
  "joinedGameID c \<noteq> Some [] \<Longrightarrow> joinedGameID (gamePageStep user c ev) \<noteq> Some []"
proof (cases ev)
  case (RouteEffect rid r)
  assume "joinedGameID c \<noteq> Some []"
  with RouteEffect show ?thesis
    by (auto simp: routeEffect_def handleJoinGame_joined split: option.splits)
next
  case (GameUpdateEvent u)
  assume "joinedGameID c \<noteq> Some []"
  with GameUpdateEvent show ?thesis by (simp add: handleGameUpdate_def)
next
  case (GameErrorEvent e)
  assume "joinedGameID c \<noteq> Some []"
  with GameErrorEvent show ?thesis by (simp add: handleGameError_def)
qed

lemma foldl_joined:
  "joinedGameID c \<noteq> Some [] \<Longrightarrow> joinedGameID (foldl (gamePageStep user) c evs) \<noteq> Some []"
  by (induction evs arbitrary: c) (simp_all add: gamePageStep_joined)

lemma gamePageRun_joined: "joinedGameID (gamePageRun user evs) \<noteq> Some []"
  unfolding gamePageRun_def by (rule foldl_joined) (simp add: initialGamePageState_def)

text \<open>
  C6.  In every state the hook can reach with a game joined, that is with
  \<^verbatim>\<open>joinedGameID\<close> and \<^verbatim>\<open>gameState\<close> both set: when the game's status is \<^verbatim>\<open>OVER\<close>,
  \<^verbatim>\<open>handleLeaveGame\<close> sends no \<^verbatim>\<open>leaveGame\<close> request and no \<^verbatim>\<open>leaveGame\<close> socket event
  and only navigates to the list of games; when the status is anything else it first
  sends the \<^verbatim>\<open>leaveGame\<close> request for the joined game and the user, then the socket
  event if the request succeeded (a log entry if it failed), and navigates last.
\<close>

theorem leave_skipped_when_over:
  assumes "c = gamePageRun user evs"
    and "joinedGameID c = Some gid"
    and "gameState c = Some g"
  shows "(status (state g) = OVER \<longrightarrow> handleLeaveGame user leaveOk c = [Navigate ''/games'']) \<and>
         (status (state g) \<noteq> OVER \<longrightarrow>
            handleLeaveGame user leaveOk c =
              Request_leaveGame gid (username user) #
                (if leaveOk then [Emit_leaveGame gid] else [ConsoleError ''Error leaving game:''])
              @ [Navigate ''/games''])"
proof -
  from assms(1,2) gamePageRun_joined[of user evs] have "gid \<noteq> []" by auto
  with assms(2,3) show ?thesis by (simp add: handleLeaveGame_def)
qed

text \<open>The first user joins a running game and leaves: request, socket event,
  navigation.  When an update has ended the game in between, only the navigation is
  left.\<close>

theorem leave_skipped_when_over_witness:
  "handleLeaveGame user0 True
     (gamePageRun user0 [RouteEffect (Some ''g1'') (Some game0),
                         GameUpdateEvent \<lparr> update_gameState = gameOver \<rparr>])
     = [Navigate ''/games''] \<and>
   handleLeaveGame user0 True (gamePageRun user0 [RouteEffect (Some ''g1'') (Some game0)])
     = [Request_leaveGame ''g1'' ''ann'', Emit_leaveGame ''g1'', Navigate ''/games'']"
proof -
  let ?c1 = "gamePageRun user0 [RouteEffect (Some ''g1'') (Some game0),
                         GameUpdateEvent \<lparr> update_gameState = gameOver \<rparr>]"
  let ?c2 = "gamePageRun user0 [RouteEffect (Some ''g1'') (Some game0)]"
  have j1: "joinedGameID ?c1 = Some ''g1''" and g1: "gameState ?c1 = Some gameOver"
    by (simp_all add: gamePageRun_def routeEffect_def handleJoinGame_def handleGameUpdate_def
                      initialGamePageState_def)
  have j2: "joinedGameID ?c2 = Some ''g1''" and g2: "gameState ?c2 = Some game0"
    by (simp_all add: gamePageRun_def routeEffect_def handleJoinGame_def initialGamePageState_def)
  have o1: "status (state gameOver) = OVER" by (simp add: gameOver_def nimOver_def)
  have o2: "status (state game0) \<noteq> OVER" by (simp add: game0_def nim0_def)
  from leave_skipped_when_over[OF refl j1 g1, of True] o1
  have 1: "handleLeaveGame user0 True ?c1 = [Navigate ''/games'']" by simp
  from leave_skipped_when_over[OF refl j2 g2, of True] o2
  have 2: "handleLeaveGame user0 True ?c2
     = [Request_leaveGame ''g1'' ''ann'', Emit_leaveGame ''g1'', Navigate ''/games'']"
    by (simp add: user0_def)
  from 1 2 show ?thesis by simp
qed

section \<open>The chat service\<close>

lemma getChats_array: "\<exists>cs. getChatsByParticipants query p = Resolves (JsArray cs)"
proof (cases "query p")
  case (QueryThrows m)
  then show ?thesis by (simp add: getChatsByParticipants_def)
next
  case (QueryReturns v)
  then show ?thesis by (cases v) (simp_all add: getChatsByParticipants_def)
qed

lemma getChats_mockable_falsy:
  "\<not> truthyValue mockFind \<Longrightarrow>
   getChatsByParticipants_mockable mockFind query p = getChatsByParticipants query p"
  by (simp add: getChatsByParticipants_mockable_def getChatsByParticipants_def)

lemma getChats_mockable_array:
  "\<exists>cs. getChatsByParticipants_mockable mockFind query p = Resolves (JsArray cs)"
proof (cases "truthyValue mockFind")
  case True
  then show ?thesis
    by (cases mockFind) (simp_all add: getChatsByParticipants_mockable_def)
next
  case False
  then show ?thesis using getChats_array by (simp add: getChats_mockable_falsy)
qed

lemma getChats_empty:
  "(\<exists>m. query p = QueryThrows m) \<or> (\<exists>v. query p = QueryReturns v \<and> \<not> isArray v) \<Longrightarrow>
   getChatsByParticipants query p = Resolves (JsArray [])"
  by (auto simp: getChatsByParticipants_def)

text \<open>
  C10.  For every list of participants, both versions of \<^verbatim>\<open>getChatsByParticipants\<close>
  resolve, and to an array: never a rejection, never an error value.  When the query
  throws, or returns something that is not an array, the result is the empty array;
  in the version that looks for a test double first, the query runs when no truthy
  double is installed, and a double that is an \<^verbatim>\<open>Error\<close> gives the empty array as well.
\<close>

theorem chats_by_participants_total:
  "(\<exists>cs. getChatsByParticipants query p = Resolves (JsArray cs)) \<and>
   (\<exists>cs. getChatsByParticipants_mockable mockFind query p = Resolves (JsArray cs)) \<and>
   ((\<exists>m. query p = QueryThrows m) \<or> (\<exists>v. query p = QueryReturns v \<and> \<not> isArray v) \<longrightarrow>
      getChatsByParticipants query p = Resolves (JsArray []) \<and>
      (\<not> truthyValue mockFind \<longrightarrow>
         getChatsByParticipants_mockable mockFind query p = Resolves (JsArray []))) \<and>
   (isError mockFind \<longrightarrow> getChatsByParticipants_mockable mockFind query p = Resolves (JsArray []))"
proof (intro conjI impI)
  show "\<exists>cs. getChatsByParticipants query p = Resolves (JsArray cs)" by (rule getChats_array)
  show "\<exists>cs. getChatsByParticipants_mockable mockFind query p = Resolves (JsArray cs)"
    by (rule getChats_mockable_array)
next
  assume "(\<exists>m. query p = QueryThrows m) \<or> (\<exists>v. query p = QueryReturns v \<and> \<not> isArray v)"
  then show "getChatsByParticipants query p = Resolves (JsArray [])" by (rule getChats_empty)
next
  assume "(\<exists>m. query p = QueryThrows m) \<or> (\<exists>v. query p = QueryReturns v \<and> \<not> isArray v)"
    and "\<not> truthyValue mockFind"
  then show "getChatsByParticipants_mockable mockFind query p = Resolves (JsArray [])"
    by (simp add: getChats_mockable_falsy getChats_empty)
next
  assume "isError mockFind"
  then show "getChatsByParticipants_mockable mockFind query p = Resolves (JsArray [])"
    by (cases mockFind) (simp_all add: getChatsByParticipants_mockable_def)
qed

text \<open>A query that throws and a query that returns \<^verbatim>\<open>null\<close>, with no double installed,
  and an \<^verbatim>\<open>Error\<close> as the double: the empty array each time.\<close>

theorem chats_by_participants_total_witness:
  "getChatsByParticipants failingQuery [''ann'', ''bob''] = Resolves (JsArray []) \<and>
   getChatsByParticipants_mockable JsUndefined failingQuery [''ann'', ''bob''] = Resolves (JsArray []) \<and>
   getChatsByParticipants nullQuery [''ann''] = Resolves (JsArray []) \<and>
   getChatsByParticipants_mockable JsNull nullQuery [''ann''] = Resolves (JsArray []) \<and>
   getChatsByParticipants_mockable (JsError ''boom'') nullQuery [''ann''] = Resolves (JsArray [])"
proof -
  have t: "(\<exists>m. failingQuery [''ann'', ''bob''] = QueryThrows m) \<or>
           (\<exists>v. failingQuery [''ann'', ''bob''] = QueryReturns v \<and> \<not> isArray v)"
    by (simp add: failingQuery_def)
  have n: "(\<exists>m. nullQuery [''ann''] = QueryThrows m) \<or>
           (\<exists>v. nullQuery [''ann''] = QueryReturns v \<and> \<not> isArray v)"
    by (simp add: nullQuery_def)
  have f1: "\<not> truthyValue JsUndefined" and f2: "\<not> truthyValue JsNull" and e: "isError (JsError ''boom'')"
    by simp_all
  from t f1 chats_by_participants_total[of failingQuery "[''ann'', ''bob'']" JsUndefined]
  have 1: "getChatsByParticipants failingQuery [''ann'', ''bob''] = Resolves (JsArray []) \<and>
   getChatsByParticipants_mockable JsUndefined failingQuery [''ann'', ''bob''] = Resolves (JsArray [])"
    by blast
  from n f2 chats_by_participants_total[of nullQuery "[''ann'']" JsNull]
  have 2: "getChatsByParticipants nullQuery [''ann''] = Resolves (JsArray []) \<and>
   getChatsByParticipants_mockable JsNull nullQuery [''ann''] = Resolves (JsArray [])"
    by blast
  from e chats_by_participants_total[of nullQuery "[''ann'']" "JsError ''boom''"]
  have 3: "getChatsByParticipants_mockable (JsError ''boom'') nullQuery [''ann''] = Resolves (JsArray [])"
    by blast
  from 1 2 3 show ?thesis by simp
qed

section \<open>The engine's moves\<close>

lemmas engine_defs = validate_def applyMove_def turnSeat_def seats_def movesOf_def otherSeated_def

lemma validate_accepted:
  assumes "validate s p n = Inr s'"
  shows "status s = IN_PROGRESS" and "turnSeat s = Some p" and "n \<in> {1, 2, 3}"
    and "n \<le> remainingObjects s"
    and "remainingObjects s' = remainingObjects s - n"
    and "movesOf s' = movesOf s @ [\<lparr> entry_playerID = p, entry_numObjects = n \<rparr>]"
    and "player1 s' = player1 s" and "player2 s' = player2 s"
    and "remainingObjects s' = 0 \<Longrightarrow> status s' = OVER \<and> winners s' = Some (otherSeated s p)"
    and "remainingObjects s' \<noteq> 0 \<Longrightarrow> status s' = IN_PROGRESS \<and> winners s' = winners s"
  using assms by (auto simp: validate_def Let_def movesOf_def split: if_splits)

lemma seats_length: "length (seats s) = 2"
  by (simp add: seats_def)

lemma seats_nth_mod: "seats s ! (k mod 2) = (if even k then player1 s else player2 s)"
  by (cases "even k") (simp_all add: seats_def even_iff_mod_2_eq_zero odd_iff_mod_2_eq_one)

lemma turnSeat_nth: "turnSeat s = seats s ! (length (movesOf s) mod 2)"
  by (simp add: turnSeat_def seats_length)

lemma turnSeat_alt: "turnSeat s = (if even (length (movesOf s)) then player1 s else player2 s)"
  by (simp only: turnSeat_nth seats_nth_mod)

lemma getCurrentPlayer_alt:
  "getCurrentPlayer g =
     (if even (length (movesOf (state g))) then player1 (state g) else player2 (state g))"
  by (auto simp: getCurrentPlayer_def movesOf_def Let_def split: option.splits)

lemma applyMove_turnsKept:
  assumes "turnsKept s0 s"
  shows "turnsKept s0 (fst (applyMove s p n))"
proof (cases "validate s p n")
  case (Inl r)
  with assms show ?thesis by (simp add: applyMove_def)
next
  case (Inr s')
  note acc = validate_accepted[OF Inr]
  from assms have st: "seats s = seats s0" by (simp add: turnsKept_def)
  from acc(7,8) st have st': "seats s' = seats s0" by (simp add: seats_def)
  from acc(2) st have cur: "Some p = seats s0 ! (length (movesOf s) mod 2)"
    by (simp add: turnSeat_nth)
  have "\<forall>k < length (movesOf s'). Some (entry_playerID (movesOf s' ! k)) = seats s0 ! (k mod 2)"
  proof (intro allI impI)
    fix k assume k: "k < length (movesOf s')"
    show "Some (entry_playerID (movesOf s' ! k)) = seats s0 ! (k mod 2)"
    proof (cases "k < length (movesOf s)")
      case True
      with assms acc(6) show ?thesis by (simp add: turnsKept_def nth_append)
    next
      case False
      with k acc(6) have "k = length (movesOf s)" by simp
      with acc(6) cur show ?thesis by simp
    qed
  qed
  with st' Inr show ?thesis by (simp add: applyMove_def turnsKept_def)
qed

lemma applyMoves_turnsKept:
  "turnsKept s0 s \<Longrightarrow> turnsKept s0 (applyMoves s xs)"
  by (induction s xs rule: applyMoves.induct) (simp_all add: applyMove_turnsKept)

lemma validate_status: "validate s p n = Inr s' \<Longrightarrow> status s' \<noteq> WAITING"
  by (auto simp: validate_def Let_def split: if_splits)

lemma join_seated: "seated s \<Longrightarrow> join s p = Inr s' \<Longrightarrow> seated s'"
  by (auto simp: join_def seated_def split: if_splits)

lemma leave_seated: "seated s \<Longrightarrow> seated (leave s p)"
  by (auto simp: leave_def seated_def split: GameStatus.splits)

lemma applyMove_seated:
  assumes "seated s" shows "seated (fst (applyMove s p n))"
proof (cases "validate s p n")
  case (Inl r)
  with assms show ?thesis by (simp add: applyMove_def)
next
  case (Inr s')
  from validate_accepted(1,7,8)[OF Inr] validate_status[OF Inr] assms Inr
  show ?thesis by (simp add: applyMove_def seated_def)
qed

lemma engineStep_seated: "seated s \<Longrightarrow> seated (engineStep s req)"
  by (cases req) (auto simp: join_seated leave_seated applyMove_seated split: sum.splits)

lemma foldl_seated: "seated s \<Longrightarrow> seated (foldl engineStep s reqs)"
  by (induction reqs arbitrary: s) (simp_all add: engineStep_seated)

text \<open>Every instance the engine reaches from creation has its seats in order; one in
  progress has two different players seated.\<close>

lemma engineRun_seated: "seated (engineRun pile reqs)"
  unfolding engineRun_def by (rule foldl_seated) (simp add: seated_def createGame_def)

lemma engineRun_in_progress_seats:
  "status (engineRun pile reqs) = IN_PROGRESS \<Longrightarrow>
   \<exists>a b. player1 (engineRun pile reqs) = Some a \<and> player2 (engineRun pile reqs) = Some b \<and> a \<noteq> b"
  using engineRun_seated[of pile reqs] by (auto simp: seated_def)

text \<open>The specification's scenarios on the model: two joins start the game, the moves
  3, 1, 3 on a pile of 7 end it with the second player winning, and a third player is
  refused.\<close>

lemma scenario_play:
  "engineRun 7 [JoinRequest ''ann'', JoinRequest ''bob''] = nim0 \<and>
   engineRun 7 [JoinRequest ''ann'', JoinRequest ''bob'', MoveRequest ''ann'' 3,
                MoveRequest ''bob'' 1, MoveRequest ''ann'' 3] = nimOver \<and>
   join nim0 ''cat'' = Inl GameFull"
  by (simp add: engineRun_def createGame_def join_def engine_defs nim0_def nimOver_def)

text \<open>
  C1.  Take an instance whose two seats hold two different players, as they do in every
  instance in progress that the engine reaches.  When a move is
  accepted and leaves a pile of exactly 0, the move is committed and published, the
  status is \<^verbatim>\<open>OVER\<close>, the mover is one of the two seated players and \<^verbatim>\<open>winners\<close> holds
  exactly one name, that of the other seated player; the page of such a game shows
  this name, \<^verbatim>\<open>winners[0]\<close>, after \<^verbatim>\<open>Winner:\<close>.
\<close>

theorem misere_last_object_loses:
  assumes "validate s p n = Inr s'"
    and "remainingObjects s' = 0"
    and "player1 s = Some a" and "player2 s = Some b" and "a \<noteq> b"
  shows "applyMove s p n = (s', PublishStateUpdate s') \<and>
         status s' = OVER \<and>
         p \<in> {a, b} \<and>
         (\<exists>w. winners s' = Some [w] \<and> w \<in> {a, b} \<and> w \<noteq> p \<and>
              winner_shown (NimGamePage \<lparr> gameID = gid, state = s' \<rparr> u mv) = Some w)"
proof -
  from assms(1) have turn: "turnSeat s = Some p" by (rule validate_accepted)
  with assms(3,4) have p: "p \<in> {a, b}" by (auto simp: turnSeat_alt split: if_splits)
  from assms(1,2) have over: "status s' = OVER" and w: "winners s' = Some (otherSeated s p)"
    using validate_accepted(9) by blast+
  let ?w = "if p = a then b else a"
  from assms(3,4,5) have o: "otherSeated s p = [?w]" by (auto simp: otherSeated_def)
  have shown: "winner_shown (NimGamePage \<lparr> gameID = gid, state = s' \<rparr> u mv) = Some ?w"
    using over w o by (simp add: NimGamePage_def)
  have "?w \<in> {a, b}" and "?w \<noteq> p" using p assms(5) by auto
  with shown w o have "\<exists>w. winners s' = Some [w] \<and> w \<in> {a, b} \<and> w \<noteq> p \<and>
              winner_shown (NimGamePage \<lparr> gameID = gid, state = s' \<rparr> u mv) = Some w"
    by (intro exI[of _ ?w]) simp
  moreover from assms(1) have "applyMove s p n = (s', PublishStateUpdate s')"
    by (simp add: applyMove_def)
  ultimately show ?thesis using over p by blast
qed

text \<open>The specification's scenario: from a pile of 7 the first player takes 3, the
  second 1, and the first player's 3 empties the pile; the game is over and the second
  player is the winner shown.\<close>

theorem misere_last_object_loses_witness:
  "applyMoves nim0 [(''ann'', 3), (''bob'', 1)] = nim3 \<and>
   applyMove nim3 ''ann'' 3 = (nimOver, PublishStateUpdate nimOver) \<and>
   remainingObjects nimOver = 0 \<and> status nimOver = OVER \<and> winners nimOver = Some [''bob''] \<and>
   winner_shown (NimGamePage \<lparr> gameID = ''g1'', state = nimOver \<rparr> user0 1) = Some ''bob''"
proof -
  have run: "applyMoves nim0 [(''ann'', 3), (''bob'', 1)] = nim3"
    by (simp add: engine_defs nim0_def nim3_def)
  have v: "validate nim3 ''ann'' 3 = Inr nimOver"
    by (simp add: engine_defs nim3_def nimOver_def)
  have z: "remainingObjects nimOver = 0" by (simp add: nimOver_def)
  have a: "player1 nim3 = Some ''ann''" and b: "player2 nim3 = Some ''bob''" and ne: "''ann'' \<noteq> ''bob''"
    by (simp_all add: nim3_def)
  from misere_last_object_loses[OF v z a b ne, of "''g1''" user0 1]
  obtain w where "applyMove nim3 ''ann'' 3 = (nimOver, PublishStateUpdate nimOver)"
    and "status nimOver = OVER" and "winners nimOver = Some [w]" and "w \<in> {''ann'', ''bob''}"
    and "w \<noteq> ''ann''"
    and "winner_shown (NimGamePage \<lparr> gameID = ''g1'', state = nimOver \<rparr> user0 1) = Some w"
    by blast
  with run z show ?thesis by auto
qed

text \<open>
  C2.  \<^verbatim>\<open>getCurrentPlayer\<close> returns \<^verbatim>\<open>player1\<close> when \<^verbatim>\<open>moves\<close> is absent or of even length,
  zero included, and \<^verbatim>\<open>player2\<close> when its length is odd: it is the seat at index
  \<^verbatim>\<open>moves.length % 2\<close>, the seat the validator computes.  In a game in progress a move
  by anyone but the player of that seat is rejected with \<^verbatim>\<open>NotYourTurn\<close> and changes
  nothing, and an accepted move was made by the player of that seat.  So in any run of
  move attempts on an instance that starts without moves, the seats stay and the move
  at every index \<open>k\<close> of the recorded sequence was made by the player of seat
  \<open>k mod 2\<close>.
\<close>

theorem turn_alternation:
  "(moves (state g) = None \<longrightarrow> getCurrentPlayer g = player1 (state g)) \<and>
   (moves (state g) = Some ms \<longrightarrow>
      getCurrentPlayer g = (if even (length ms) then player1 (state g) else player2 (state g))) \<and>
   getCurrentPlayer g = seats (state g) ! (length (movesOf (state g)) mod 2) \<and>
   turnSeat (state g) = getCurrentPlayer g \<and>
   (status s = IN_PROGRESS \<and> Some p \<noteq> seats s ! (length (movesOf s) mod 2) \<longrightarrow>
      validate s p n = Inl NotYourTurn \<and> applyMove s p n = (s, PublishPlayerError p NotYourTurn)) \<and>
   (validate s p n = Inr s' \<longrightarrow> Some p = seats s ! (length (movesOf s) mod 2)) \<and>
   (movesOf s = [] \<longrightarrow>
      seats (applyMoves s xs) = seats s \<and>
      (\<forall>k < length (movesOf (applyMoves s xs)).
         Some (entry_playerID (movesOf (applyMoves s xs) ! k)) = seats s ! (k mod 2)))"
proof (intro conjI impI)
  show "moves (state g) = None \<Longrightarrow> getCurrentPlayer g = player1 (state g)"
    by (simp add: getCurrentPlayer_def)
  show "moves (state g) = Some ms \<Longrightarrow>
      getCurrentPlayer g = (if even (length ms) then player1 (state g) else player2 (state g))"
    by (simp add: getCurrentPlayer_alt movesOf_def)
  show "turnSeat (state g) = getCurrentPlayer g"
    by (simp add: getCurrentPlayer_alt turnSeat_alt)
  then show "getCurrentPlayer g = seats (state g) ! (length (movesOf (state g)) mod 2)"
    by (simp add: turnSeat_nth)
next
  assume a: "status s = IN_PROGRESS \<and> Some p \<noteq> seats s ! (length (movesOf s) mod 2)"
  then show v: "validate s p n = Inl NotYourTurn"
    by (auto simp: validate_def turnSeat_nth)
  then show "applyMove s p n = (s, PublishPlayerError p NotYourTurn)"
    by (simp add: applyMove_def)
next
  assume "validate s p n = Inr s'"
  then have "turnSeat s = Some p" by (rule validate_accepted)
  then show "Some p = seats s ! (length (movesOf s) mod 2)"
    by (simp add: turnSeat_nth)
next
  assume "movesOf s = []"
  then have "turnsKept s s" by (simp add: turnsKept_def)
  then have k: "turnsKept s (applyMoves s xs)" by (rule applyMoves_turnsKept)
  then show "seats (applyMoves s xs) = seats s" by (simp add: turnsKept_def)
  from k show "\<forall>k < length (movesOf (applyMoves s xs)).
         Some (entry_playerID (movesOf (applyMoves s xs) ! k)) = seats s ! (k mod 2)"
    by (simp add: turnsKept_def)
qed

text \<open>On the game with no move made it is the first player's turn and the second
  player's attempt is rejected; in the run where the first player takes 3, tries to
  move again and the second player then takes 1, the two recorded moves are the first
  and the second player's.\<close>

theorem turn_alternation_witness:
  "getCurrentPlayer game0 = Some ''ann'' \<and>
   applyMove nim0 ''bob'' 1 = (nim0, PublishPlayerError ''bob'' NotYourTurn) \<and>
   map entry_playerID (movesOf (applyMoves nim0 [(''ann'', 3), (''ann'', 1), (''bob'', 1)]))
     = [''ann'', ''bob''] \<and>
   Some (entry_playerID (movesOf (applyMoves nim0 [(''ann'', 3), (''ann'', 1), (''bob'', 1)]) ! 1))
     = seats nim0 ! (1 mod 2)"
proof -
  let ?xs = "[(''ann'', 3), (''ann'', 1), (''bob'', 1)] :: (string \<times> int) list"
  note t = turn_alternation[of game0 "[]" nim0 "''bob''" 1 nim0 ?xs]
  have m: "moves (state game0) = Some []" by (simp add: game0_def nim0_def)
  have ip: "status nim0 = IN_PROGRESS \<and> Some ''bob'' \<noteq> seats nim0 ! (length (movesOf nim0) mod 2)"
    by (simp add: nim0_def seats_def movesOf_def)
  have e: "movesOf nim0 = []" by (simp add: nim0_def movesOf_def)
  have run: "map entry_playerID (movesOf (applyMoves nim0 ?xs)) = [''ann'', ''bob'']"
    by (simp add: engine_defs nim0_def)
  then have len: "1 < length (movesOf (applyMoves nim0 ?xs))"
    by (metis length_map length_Cons list.size(3) One_nat_def lessI)
  from t m have 1: "getCurrentPlayer game0 = Some ''ann''" by (simp add: game0_def nim0_def)
  from t ip have 2: "applyMove nim0 ''bob'' 1 = (nim0, PublishPlayerError ''bob'' NotYourTurn)"
    by blast
  from t e len have 3:
    "Some (entry_playerID (movesOf (applyMoves nim0 ?xs) ! 1)) = seats nim0 ! (1 mod 2)"
    by blast
  from 1 2 3 run show ?thesis by simp
qed

text \<open>
  C7.  The page renders the move input and the submit button exactly when the game's
  status is \<^verbatim>\<open>IN_PROGRESS\<close>, and then the button is disabled exactly when the current
  player is not the user.  In every other status a move is rejected with
  \<^verbatim>\<open>GameNotInProgress\<close> and changes nothing, so an accepted move was made in
  \<^verbatim>\<open>IN_PROGRESS\<close>.  A game that is \<^verbatim>\<open>WAITING\<close> with a vacant seat accepts a join and
  seats the player.  A game that is \<^verbatim>\<open>OVER\<close> stays as it is under leaves and joins as
  well: a join returns it unchanged or is refused.
\<close>

theorem moves_only_in_progress:
 "(move_controls (NimGamePage g u mv) \<noteq> None \<longleftrightarrow> status (state g) = IN_PROGRESS) \<and>
  (status (state g) = IN_PROGRESS \<longrightarrow>
     move_controls (NimGamePage g u mv) =
       Some \<lparr> input_value = mv, submit_disabled = (getCurrentPlayer g \<noteq> Some (username u)) \<rparr>) \<and>
  (status s \<noteq> IN_PROGRESS \<longrightarrow>
     validate s p n = Inl GameNotInProgress \<and>
     applyMove s p n = (s, PublishPlayerError p GameNotInProgress)) \<and>
  (validate s p n = Inr s' \<longrightarrow> status s = IN_PROGRESS) \<and>
  (status s = WAITING \<and> (player1 s = None \<or> player2 s = None) \<longrightarrow>
     (\<exists>s'. join s p = Inr s' \<and> (player1 s' = Some p \<or> player2 s' = Some p))) \<and>
  (status s = OVER \<longrightarrow> leave s p = s \<and> (join s p = Inr s \<or> join s p = Inl GameFull))"
proof (intro conjI impI)
  show "(move_controls (NimGamePage g u mv) \<noteq> None) = (status (state g) = IN_PROGRESS)"
    by (simp add: NimGamePage_def)
  show "status (state g) = IN_PROGRESS \<Longrightarrow> move_controls (NimGamePage g u mv) =
       Some \<lparr> input_value = mv, submit_disabled = (getCurrentPlayer g \<noteq> Some (username u)) \<rparr>"
    by (simp add: NimGamePage_def isUserTurn_def)
  show "validate s p n = Inr s' \<Longrightarrow> status s = IN_PROGRESS"
    by (rule validate_accepted)
next
  assume "status s \<noteq> IN_PROGRESS"
  then show v: "validate s p n = Inl GameNotInProgress" by (simp add: validate_def)
  then show "applyMove s p n = (s, PublishPlayerError p GameNotInProgress)"
    by (simp add: applyMove_def)
next
  assume "status s = WAITING \<and> (player1 s = None \<or> player2 s = None)"
  then show "\<exists>s'. join s p = Inr s' \<and> (player1 s' = Some p \<or> player2 s' = Some p)"
    by (auto simp: join_def)
next
  assume o: "status s = OVER"
  then show "leave s p = s" by (simp add: leave_def)
  from o show "join s p = Inr s \<or> join s p = Inl GameFull" by (simp add: join_def)
qed

text \<open>The waiting game shows no move controls to the second player, rejects a move
  and seats the second player on a join, which starts the game; the running game shows
  the first player an enabled button and the second a disabled one; the game that is
  over rejects a move and ignores a leave.\<close>

theorem moves_only_in_progress_witness:
  "move_controls (NimGamePage gameWaiting user1 1) = None \<and>
   applyMove nimWaiting ''ann'' 1 = (nimWaiting, PublishPlayerError ''ann'' GameNotInProgress) \<and>
   join nimWaiting ''bob'' = Inr nim0 \<and>
   move_controls (NimGamePage game0 user0 2) = Some \<lparr> input_value = 2, submit_disabled = False \<rparr> \<and>
   move_controls (NimGamePage game0 user1 2) = Some \<lparr> input_value = 2, submit_disabled = True \<rparr> \<and>
   applyMove nimOver ''bob'' 1 = (nimOver, PublishPlayerError ''bob'' GameNotInProgress) \<and>
   leave nimOver ''bob'' = nimOver"
proof -
  have w: "status (state gameWaiting) \<noteq> IN_PROGRESS" "status nimWaiting \<noteq> IN_PROGRESS"
    and wj: "status nimWaiting = WAITING \<and> (player1 nimWaiting = None \<or> player2 nimWaiting = None)"
    by (simp_all add: gameWaiting_def nimWaiting_def)
  have r: "status (state game0) = IN_PROGRESS" by (simp add: game0_def nim0_def)
  have cur: "getCurrentPlayer game0 = Some ''ann''"
    by (simp add: getCurrentPlayer_def game0_def nim0_def)
  have o: "status nimOver = OVER" "status nimOver \<noteq> IN_PROGRESS" by (simp_all add: nimOver_def)
  from moves_only_in_progress[of gameWaiting user1 1 nimWaiting "''ann''" 1] w
  have 1: "move_controls (NimGamePage gameWaiting user1 1) = None"
    and 2: "applyMove nimWaiting ''ann'' 1 = (nimWaiting, PublishPlayerError ''ann'' GameNotInProgress)"
    by blast+
  from moves_only_in_progress[of game0 user0 2 nimWaiting "''bob''" 1] wj
  obtain s' where "join nimWaiting ''bob'' = Inr s'" by blast
  then have 3: "join nimWaiting ''bob'' = Inr nim0"
    by (simp add: join_def nimWaiting_def nim0_def)
  from moves_only_in_progress[of game0 user0 2 nimOver "''bob''" 1] r cur o
  have 4: "move_controls (NimGamePage game0 user0 2) = Some \<lparr> input_value = 2, submit_disabled = False \<rparr>"
    and 6: "applyMove nimOver ''bob'' 1 = (nimOver, PublishPlayerError ''bob'' GameNotInProgress)"
    and 7: "leave nimOver ''bob'' = nimOver"
    by (simp_all add: user0_def)
  from moves_only_in_progress[of game0 user1 2 nimOver "''bob''" 1] r cur
  have 5: "move_controls (NimGamePage game0 user1 2) = Some \<lparr> input_value = 2, submit_disabled = True \<rparr>"
    by (simp add: user1_def)
  from 1 2 3 4 5 6 7 show ?thesis by simp
qed

lemma validate_rejected_cases:
  "validate s p n = Inl r \<Longrightarrow>
     (r = GameNotInProgress \<and> status s \<noteq> IN_PROGRESS) \<or>
     (r = NotYourTurn \<and> status s = IN_PROGRESS \<and> turnSeat s \<noteq> Some p) \<or>
     (r = IllegalMove \<and> status s = IN_PROGRESS \<and> turnSeat s = Some p \<and>
        (n \<notin> {1, 2, 3} \<or> n > remainingObjects s))"
  by (auto simp: validate_def Let_def split: if_splits)

text \<open>
  C4.  A move rejected by the validator, whatever the rejection, leaves the instance
  exactly as it was: \<^verbatim>\<open>applyMove\<close> returns the instance it was given and publishes only
  an error for the acting player.  A move of 4 against a pile of 3 is always rejected,
  as \<^verbatim>\<open>IllegalMove\<close> when the game is in progress and it is the mover's turn, and the pile
  stays at 3.  On the client, \<^verbatim>\<open>handleGameError\<close> changes nothing but the error message:
  \<^verbatim>\<open>gameState\<close> and \<^verbatim>\<open>joinedGameID\<close> are as before.
\<close>

theorem rejected_move_changes_nothing:
  "(validate s p n = Inl r \<longrightarrow> applyMove s p n = (s, PublishPlayerError p r)) \<and>
   (remainingObjects s = 3 \<longrightarrow>
      (\<exists>r. validate s p 4 = Inl r) \<and> remainingObjects (fst (applyMove s p 4)) = 3) \<and>
   (status s = IN_PROGRESS \<and> turnSeat s = Some p \<and> remainingObjects s = 3 \<longrightarrow>
      validate s p 4 = Inl IllegalMove) \<and>
   gameState (handleGameError user ge c) = gameState c \<and>
   joinedGameID (handleGameError user ge c) = joinedGameID c"
  by (auto simp: applyMove_def validate_def handleGameError_def)

text \<open>With a pile of 3 and the first player to move: the first player's 4 is an illegal
  move, the second player's 1 is out of turn, and a move in the waiting game comes
  when no game is in progress; each leaves its instance as it was.  The client of the
  first player keeps its game state when the error arrives.\<close>

theorem rejected_move_changes_nothing_witness:
  "applyMove nim3 ''ann'' 4 = (nim3, PublishPlayerError ''ann'' IllegalMove) \<and>
   applyMove nim3 ''bob'' 1 = (nim3, PublishPlayerError ''bob'' NotYourTurn) \<and>
   applyMove nimWaiting ''ann'' 1 = (nimWaiting, PublishPlayerError ''ann'' GameNotInProgress) \<and>
   remainingObjects (fst (applyMove nim3 ''ann'' 4)) = 3 \<and>
   gameState (handleGameError user0 \<lparr> error_player = ''ann'', error_error = ''Invalid move'' \<rparr>
                \<lparr> gameState = Some \<lparr> gameID = ''g1'', state = nim3 \<rparr>,
                  joinedGameID = Some ''g1'', error = None \<rparr>)
     = Some \<lparr> gameID = ''g1'', state = nim3 \<rparr>"
proof -
  have v1: "validate nim3 ''ann'' 4 = Inl IllegalMove"
    and v2: "validate nim3 ''bob'' 1 = Inl NotYourTurn"
    and v3: "validate nimWaiting ''ann'' 1 = Inl GameNotInProgress"
    by (simp_all add: engine_defs nim3_def nimWaiting_def)
  have pile: "remainingObjects nim3 = 3" by (simp add: nim3_def)
  from rejected_move_changes_nothing[of nim3 "''ann''" 4 IllegalMove] v1 pile
  have 1: "applyMove nim3 ''ann'' 4 = (nim3, PublishPlayerError ''ann'' IllegalMove)"
    and 4: "remainingObjects (fst (applyMove nim3 ''ann'' 4)) = 3"
    by blast+
  from rejected_move_changes_nothing[of nim3 "''bob''" 1 NotYourTurn] v2
  have 2: "applyMove nim3 ''bob'' 1 = (nim3, PublishPlayerError ''bob'' NotYourTurn)"
    by blast
  from rejected_move_changes_nothing[of nimWaiting "''ann''" 1 GameNotInProgress] v3
  have 3: "applyMove nimWaiting ''ann'' 1 = (nimWaiting, PublishPlayerError ''ann'' GameNotInProgress)"
    by blast
  from rejected_move_changes_nothing[of nim3 "''ann''" 4 IllegalMove user0
      "\<lparr> error_player = ''ann'', error_error = ''Invalid move'' \<rparr>"
      "\<lparr> gameState = Some \<lparr> gameID = ''g1'', state = nim3 \<rparr>, joinedGameID = Some ''g1'', error = None \<rparr>"]
  have 5: "gameState (handleGameError user0 \<lparr> error_player = ''ann'', error_error = ''Invalid move'' \<rparr>
                \<lparr> gameState = Some \<lparr> gameID = ''g1'', state = nim3 \<rparr>,
                  joinedGameID = Some ''g1'', error = None \<rparr>)
     = Some \<lparr> gameID = ''g1'', state = nim3 \<rparr>"
    by simp
  from 1 2 3 4 5 show ?thesis by simp
qed

end
